theory Spec2Isabelle
  imports Complex_Main
begin

section \<open>The R\&S SMBV microwave source driver (mw\_source\_smbv.py)\<close>

text \<open>
  The class \<open>MicrowaveSmbv\<close> drives one signal generator over a text command bus. The
  embedding below follows the Python method by method.

  \<^item> The cached attributes of the object are a record; every method takes the record and
    returns the updated one together with how the call ended.
  \<^item> A \<open>raise\<close> and a failed \<open>assert\<close> are values (\<open>Raises e\<close>). The state that is paired
    with them is the state at the moment of the raise, as in Python, where the attributes
    assigned before the exception stay assigned.
  \<^item> The instrument is outside the program. Its side of the conversation is an input of
    the model: for each query the driver sends, the list of answers the instrument will
    give, in order. Each query takes the next answer. What the driver writes is appended
    to a log. A polling loop walks along the answers, so it is a structural recursion; when
    the answers end before the loop condition turns false the call has not returned
    (\<open>NoReturn\<close>): the driver has no timeout of its own.
  \<^item> Python floats and ints are modelled as \<open>real\<close>: rounding of binary64 arithmetic and
    the six-decimal rendering of \<open>{x:f}\<close> in a command text are not modelled. A command is
    kept as a constructor with its numeric argument.
  \<^item> \<open>time.sleep\<close> and the mutex \<open>_thread_lock\<close> are not modelled: every method is
    taken as one atomic call.
\<close>

subsection \<open>Errors and outcomes\<close>

datatype error =
    RuntimeError string
  | AssertionError
  | ValueError
  | TypeError
  | IndexError
  | AttributeError

datatype 'a outcome = Returns 'a | Raises error | NoReturn

type_synonym ('a, 's) call = "'s \<Rightarrow> 'a outcome \<times> 's"

definition pass :: "(unit, 's) call" where
  "pass s = (Returns (), s)"

definition raise :: "error \<Rightarrow> ('a, 's) call" where
  "raise e s = (Raises e, s)"

text \<open>Sequencing of statements: what follows an exception or a hanging call is not run.\<close>

definition bind :: "('a, 's) call \<Rightarrow> ('a \<Rightarrow> ('b, 's) call) \<Rightarrow> ('b, 's) call" where
  "bind m f s =
     (case m s of
        (Returns a, s') \<Rightarrow> f a s'
      | (Raises e, s') \<Rightarrow> (Raises e, s')
      | (NoReturn, s') \<Rightarrow> (NoReturn, s'))"

definition seq :: "(unit, 's) call \<Rightarrow> ('b, 's) call \<Rightarrow> ('b, 's) call" where
  "seq m n = bind m (\<lambda>_. n)"

subsection \<open>The instrument: commands written, answers read\<close>

text \<open>
  The command texts of the source, one constructor each:
  \<open>*CLS\<close>, \<open>*RST\<close>, \<open>*WAI\<close>, \<open>:FREQ:MODE CW\<close>, \<open>:FREQ:MODE SWEEP\<close>, \<open>:FREQ {x:f}\<close>,
  \<open>:POW {x:f}\<close>, \<open>:OUTP:STAT ON\<close>, \<open>OUTP:STAT OFF\<close>, \<open>:TRIG1:SLOP {edge}\<close>,
  \<open>:SWE:MODE STEP\<close>, \<open>:SWE:SPAC LIN\<close>, \<open>:FREQ:START {x:f}\<close>, \<open>:FREQ:STOP {x:f}\<close>,
  \<open>:SWE:STEP:LIN {x:f}\<close>, \<open>TRIG:FSW:SOUR EXT\<close>, \<open>:ABOR:SWE\<close>.
\<close>

datatype command =
    CLS
  | RST
  | WAI
  | FREQ_MODE_CW
  | FREQ_MODE_SWEEP
  | FREQ real
  | POW real
  | OUTP_STAT_ON
  | OUTP_STAT_OFF
  | TRIG1_SLOP string
  | SWE_MODE_STEP
  | SWE_SPAC_LIN
  | FREQ_START real
  | FREQ_STOP real
  | SWE_STEP_LIN real
  | TRIG_FSW_SOUR_EXT
  | ABOR_SWE

text \<open>
  The answers the instrument will give, per query: \<open>*IDN?\<close> and \<open>:FREQ:MODE?\<close> answer a
  text; \<open>*OPC?\<close>, \<open>:OUTP:STAT?\<close> (also sent as \<open>OUTP:STAT?\<close>), \<open>:POW?\<close> and \<open>:FREQ?\<close> answer a
  number, kept here as the value \<open>float(...)\<close> gives it. \<open>written\<close> is the log of the
  commands sent so far.
\<close>

record device =
  idn_answers :: "string list"
  mode_answers :: "string list"
  opc_answers :: "real list"
  outp_answers :: "real list"
  pow_answers :: "real list"
  freq_answers :: "real list"
  written :: "command list"

definition device_write :: "command \<Rightarrow> (unit, device) call" where
  "device_write c d = (Returns (), d\<lparr>written := written d @ [c]\<rparr>)"

fun writes :: "command list \<Rightarrow> (unit, device) call" where
  "writes [] d = (Returns (), d)"
| "writes (c # cs) d = writes cs (d\<lparr>written := written d @ [c]\<rparr>)"

definition query_idn :: "(string, device) call" where
  "query_idn d =
     (case idn_answers d of
        [] \<Rightarrow> (NoReturn, d)
      | a # as \<Rightarrow> (Returns a, d\<lparr>idn_answers := as\<rparr>))"

definition query_freq_mode :: "(string, device) call" where
  "query_freq_mode d =
     (case mode_answers d of
        [] \<Rightarrow> (NoReturn, d)
      | a # as \<Rightarrow> (Returns a, d\<lparr>mode_answers := as\<rparr>))"

definition query_pow :: "(real, device) call" where
  "query_pow d =
     (case pow_answers d of
        [] \<Rightarrow> (NoReturn, d)
      | a # as \<Rightarrow> (Returns a, d\<lparr>pow_answers := as\<rparr>))"

definition query_freq :: "(real, device) call" where
  "query_freq d =
     (case freq_answers d of
        [] \<Rightarrow> (NoReturn, d)
      | a # as \<Rightarrow> (Returns a, d\<lparr>freq_answers := as\<rparr>))"

text \<open>Python's \<open>int(x)\<close> on a float: truncation towards zero.\<close>

definition py_int :: "real \<Rightarrow> int" where
  "py_int x = (if 0 \<le> x then \<lfloor>x\<rfloor> else \<lceil>x\<rceil>)"

text \<open>
  \<open>while cond(query(...)): time.sleep(0.2)\<close>: answers are read while the condition holds;
  the answer that ends the loop is consumed too. \<open>None\<close>: the answers end first.
\<close>

fun poll :: "(real \<Rightarrow> bool) \<Rightarrow> real list \<Rightarrow> real list option" where
  "poll again [] = None"
| "poll again (a # as) = (if again a then poll again as else Some as)"

text \<open>\<open>while int(float(query('*OPC?'))) != 1\<close>\<close>

definition poll_opc :: "(unit, device) call" where
  "poll_opc d =
     (case poll (\<lambda>a. py_int a \<noteq> 1) (opc_answers d) of
        None \<Rightarrow> (NoReturn, d\<lparr>opc_answers := []\<rparr>)
      | Some as \<Rightarrow> (Returns (), d\<lparr>opc_answers := as\<rparr>))"

text \<open>\<open>while int(float(query(':OUTP:STAT?'))) == 0\<close> (waiting for on)\<close>

definition poll_outp_on :: "(unit, device) call" where
  "poll_outp_on d =
     (case poll (\<lambda>a. py_int a = 0) (outp_answers d) of
        None \<Rightarrow> (NoReturn, d\<lparr>outp_answers := []\<rparr>)
      | Some as \<Rightarrow> (Returns (), d\<lparr>outp_answers := as\<rparr>))"

text \<open>\<open>while int(float(query('OUTP:STAT?'))) != 0\<close> (waiting for off)\<close>

definition poll_outp_off :: "(unit, device) call" where
  "poll_outp_off d =
     (case poll (\<lambda>a. py_int a \<noteq> 0) (outp_answers d) of
        None \<Rightarrow> (NoReturn, d\<lparr>outp_answers := []\<rparr>)
      | Some as \<Rightarrow> (Returns (), d\<lparr>outp_answers := as\<rparr>))"

text \<open>\<open>_command_wait\<close>: the command, \<open>*WAI\<close>, then the poll of \<open>*OPC?\<close>.\<close>

definition command_wait :: "command \<Rightarrow> (unit, device) call" where
  "command_wait command_str = seq (device_write command_str) (seq (device_write WAI) poll_opc)"

text \<open>\<open>str.strip('\n')\<close> and \<open>str.lower()\<close> (on ASCII letters).\<close>

definition strip_newline :: "string \<Rightarrow> string" where
  "strip_newline s =
     rev (dropWhile (\<lambda>c. c = CHR 0x0A) (rev (dropWhile (\<lambda>c. c = CHR 0x0A) s)))"

definition lower_char :: "char \<Rightarrow> char" where
  "lower_char c =
     (case map_of (zip ''ABCDEFGHIJKLMNOPQRSTUVWXYZ'' ''abcdefghijklmnopqrstuvwxyz'') c of
        None \<Rightarrow> c
      | Some l \<Rightarrow> l)"

definition lower :: "string \<Rightarrow> string" where
  "lower s = map lower_char s"

text \<open>The test \<open>_in_cw_mode\<close> applies to the answer of \<open>:FREQ:MODE?\<close>.\<close>

definition is_cw :: "string \<Rightarrow> bool" where
  "is_cw answer = (lower (strip_newline answer) = ''cw'')"

definition in_cw_mode :: "(bool, device) call" where
  "in_cw_mode = bind query_freq_mode (\<lambda>answer. Pair (Returns (is_cw answer)))"

subsection \<open>Constraints and the enums\<close>

text \<open>
  The members of \<open>qudi.core.enums\<close> that the source names. The enum declarations are not
  part of the source file.
\<close>

datatype SamplingOutputMode = JUMP_LIST | EQUIDISTANT_SWEEP

datatype TriggerEdge = RISING | FALLING

record constraints =
  power_limits :: "real \<times> real"
  frequency_limits :: "real \<times> real"
  scan_size_limits :: "int \<times> int"
  scan_modes :: "SamplingOutputMode list"

text \<open>
  Modelled from the spec: the class \<open>MicrowaveConstraints\<close> of
  \<open>qudi.interface.microwave_interface\<close> is not part of the source file. The spec calls it
  an immutable bounds object, and a setter fails when the requested value lies outside
  its bounds: a value is in range when it lies between the two limits, limits included.
  \<open>min_power\<close> is the lower power limit; a mode is supported when it is one of
  \<open>scan_modes\<close>.
\<close>

definition in_range :: "'a::linorder \<Rightarrow> 'a \<times> 'a \<Rightarrow> bool" where
  "in_range v limits = (fst limits \<le> v \<and> v \<le> snd limits)"

definition power_in_range :: "constraints \<Rightarrow> real \<Rightarrow> bool" where
  "power_in_range c v = in_range v (power_limits c)"

definition frequency_in_range :: "constraints \<Rightarrow> real \<Rightarrow> bool" where
  "frequency_in_range c v = in_range v (frequency_limits c)"

definition scan_size_in_range :: "constraints \<Rightarrow> int \<Rightarrow> bool" where
  "scan_size_in_range c n = in_range n (scan_size_limits c)"

definition mode_supported :: "constraints \<Rightarrow> SamplingOutputMode \<Rightarrow> bool" where
  "mode_supported c m = (m \<in> set (scan_modes c))"

definition min_power :: "constraints \<Rightarrow> real" where
  "min_power c = fst (power_limits c)"

subsection \<open>The driver object\<close>

text \<open>
  Modelled from the spec: \<open>module_state\<close> belongs to the host framework (not part of the
  source file). The spec describes it as the output lock flag: \<open>lock()\<close> sets it,
  \<open>unlock()\<close> clears it, and the module is idle when it is clear.
\<close>

datatype module_state = Idle | Locked

record smbv =
  module_state :: module_state
  constraints :: constraints
  cw_power :: real
  cw_frequency :: real
  scan_power :: real
  scan_frequencies :: "real list option"
  dev :: device

text \<open>A call on \<open>self._device\<close> inside a method.\<close>

definition on_device :: "('a, device) call \<Rightarrow> ('a, smbv) call" where
  "on_device m s = (case m (dev s) of (r, d) \<Rightarrow> (r, s\<lparr>dev := d\<rparr>))"

definition lock :: "(unit, smbv) call" where
  "lock s = (Returns (), s\<lparr>module_state := Locked\<rparr>)"

definition unlock :: "(unit, smbv) call" where
  "unlock s = (Returns (), s\<lparr>module_state := Idle\<rparr>)"

text \<open>Python's \<open>min(value)\<close> and \<open>max(value)\<close> of a non-empty sequence.\<close>

fun py_min :: "real list \<Rightarrow> real" where
  "py_min [] = 0"
| "py_min (x # xs) = fold min xs x"

fun py_max :: "real list \<Rightarrow> real" where
  "py_max [] = 0"
| "py_max (x # xs) = fold max xs x"

subsection \<open>The setters\<close>

definition set_cw_power :: "real \<Rightarrow> (unit, smbv) call" where
  "set_cw_power v s =
     (if module_state s \<noteq> Idle then
        raise (RuntimeError ''Unable to set cw_power. Microwave output is active.'') s
      else if \<not> power_in_range (constraints s) v then raise AssertionError s
      else
        bind (on_device in_cw_mode) (\<lambda>cw.
        seq (if \<not> cw then on_device (command_wait FREQ_MODE_CW) else pass)
       (seq (\<lambda>s1. on_device (command_wait (FREQ (cw_frequency s1))) s1)
       (seq (on_device (command_wait (POW v)))
       (seq (bind (on_device query_pow) (\<lambda>p s1. (Returns (), s1\<lparr>cw_power := p\<rparr>)))
            (bind (on_device query_freq) (\<lambda>f s1. (Returns (), s1\<lparr>cw_frequency := f\<rparr>))))))) s)"

definition set_cw_frequency :: "real \<Rightarrow> (unit, smbv) call" where
  "set_cw_frequency v s =
     (if module_state s \<noteq> Idle then
        raise (RuntimeError ''Unable to set cw_frequency. Microwave output is active.'') s
      else if \<not> frequency_in_range (constraints s) v then raise AssertionError s
      else
        bind (on_device in_cw_mode) (\<lambda>cw.
        seq (if \<not> cw then on_device (command_wait FREQ_MODE_CW) else pass)
       (seq (on_device (command_wait (FREQ v)))
       (seq (\<lambda>s1. on_device (command_wait (POW (cw_power s1))) s1)
       (seq (bind (on_device query_pow) (\<lambda>p s1. (Returns (), s1\<lparr>cw_power := p\<rparr>)))
            (bind (on_device query_freq) (\<lambda>f s1. (Returns (), s1\<lparr>cw_frequency := f\<rparr>))))))) s)"

text \<open>
  \<open>_write_sweep\<close>. The unpacking \<open>start, stop, points = self._scan_frequencies\<close> raises
  TypeError on \<open>None\<close> and ValueError on a sequence that has not exactly three elements.
  The stored values are numpy floats, on which a division by zero raises nothing; no
  stored triple reaches it with \<open>points = 1\<close> (HOL gives \<open>x / 0 = 0\<close> there).
\<close>

definition write_sweep :: "(unit, smbv) call" where
  "write_sweep =
     bind (on_device in_cw_mode) (\<lambda>cw.
     seq (if cw then on_device (command_wait FREQ_MODE_SWEEP) else pass)
     (\<lambda>s.
        case scan_frequencies s of
          None \<Rightarrow> raise TypeError s
        | Some [start, stop, points] \<Rightarrow>
            (let step = (stop - start) / (points - 1) in
               seq (on_device (writes
                      [SWE_MODE_STEP, SWE_SPAC_LIN, WAI,
                       FREQ_START (start - step), FREQ_STOP stop, SWE_STEP_LIN step, WAI,
                       POW (scan_power s), WAI]))
                   (on_device (command_wait TRIG_FSW_SOUR_EXT)) s)
        | Some _ \<Rightarrow> raise ValueError s))"

definition set_scan_power :: "real \<Rightarrow> (unit, smbv) call" where
  "set_scan_power v s =
     (if module_state s \<noteq> Idle then
        raise (RuntimeError ''Unable to set scan_power. Microwave output is active.'') s
      else if \<not> power_in_range (constraints s) v then raise AssertionError s
      else
        (let s1 = s\<lparr>scan_power := v\<rparr> in
           if scan_frequencies s1 \<noteq> None then write_sweep s1 else pass s1))"

text \<open>
  The setter of \<open>scan_frequencies\<close> takes any sequence \<open>value\<close>: it checks \<open>min(value)\<close>,
  \<open>max(value)\<close> and \<open>len(value)\<close>, stores the sequence as an array and calls
  \<open>_write_sweep\<close>. \<open>min\<close> of an empty sequence raises ValueError.
\<close>

definition set_scan_frequencies :: "real list \<Rightarrow> (unit, smbv) call" where
  "set_scan_frequencies v s =
     (if module_state s \<noteq> Idle then
        raise (RuntimeError ''Unable to set scan_frequencies. Microwave output is active.'') s
      else if v = [] then raise ValueError s
      else if \<not> (frequency_in_range (constraints s) (py_min v) \<and>
                  frequency_in_range (constraints s) (py_max v)) then raise AssertionError s
      else if \<not> scan_size_in_range (constraints s) (int (length v)) then
        raise AssertionError s
      else write_sweep (s\<lparr>scan_frequencies := Some v\<rparr>))"

text \<open>
  The value assigned to \<open>scan_mode\<close> and \<open>trigger_edge\<close> is typed here as a member of the
  enum, so the \<open>isinstance\<close> assertion holds.
\<close>

definition set_scan_mode :: "SamplingOutputMode \<Rightarrow> (unit, smbv) call" where
  "set_scan_mode v s =
     (if module_state s \<noteq> Idle then
        raise (RuntimeError ''Unable to set scan_mode. Microwave output is active.'') s
      else if \<not> mode_supported (constraints s) v then raise AssertionError s
      else (Returns (), s\<lparr>scan_frequencies := None\<rparr>))"

definition set_trigger_edge :: "TriggerEdge \<Rightarrow> (unit, smbv) call" where
  "set_trigger_edge v s =
     (if module_state s \<noteq> Idle then
        raise (RuntimeError ''Unable to set trigger_edge. Microwave output is active.'') s
      else
        (let edge = (if v = FALLING then ''NEG'' else ''POS'') in
           on_device (command_wait (TRIG1_SLOP edge)) s))"

subsection \<open>Switching the output\<close>

definition off :: "(unit, smbv) call" where
  "off s =
     (if module_state s \<noteq> Idle then
        seq (on_device (device_write OUTP_STAT_OFF))
       (seq (on_device (device_write WAI))
       (seq (on_device poll_outp_off)
            unlock)) s
      else pass s)"

definition cw_on :: "(unit, smbv) call" where
  "cw_on s =
     (if module_state s \<noteq> Idle then
        bind (on_device in_cw_mode) (\<lambda>cw.
          if cw then pass
          else raise (RuntimeError
            ''Unable to start CW microwave output. Microwave output is currently active.'')) s
      else
        bind (on_device in_cw_mode) (\<lambda>cw.
        seq (if \<not> cw then
               seq (on_device (command_wait FREQ_MODE_CW))
              (seq (\<lambda>s1. on_device (command_wait (FREQ (cw_frequency s1))) s1)
                   (\<lambda>s1. on_device (command_wait (POW (cw_power s1))) s1))
             else pass)
       (seq (on_device (device_write OUTP_STAT_ON))
       (seq (on_device (device_write WAI))
       (seq (on_device poll_outp_on)
            lock)))) s)"

text \<open>
  In \<open>start_scan\<close> and \<open>reset_scan\<close> the source tests \<open>self._in_cw_mode\<close>, the method
  object, without calling it. Python takes a bound method as true and sends no query.
\<close>

definition in_cw_mode_method_object :: bool where
  "in_cw_mode_method_object = True"

definition start_scan :: "(unit, smbv) call" where
  "start_scan s =
     (if module_state s \<noteq> Idle then
        (if \<not> in_cw_mode_method_object then pass s
         else raise (RuntimeError
           ''Unable to start frequency scan. CW microwave output is active.'') s)
      else if scan_frequencies s = None then raise AssertionError s
      else
        bind (on_device in_cw_mode) (\<lambda>cw.
        seq (if cw then on_device (command_wait FREQ_MODE_SWEEP) else pass)
       (seq (on_device (device_write OUTP_STAT_ON))
       (seq (on_device poll_outp_on)
            lock))) s)"

definition reset_scan :: "(unit, smbv) call" where
  "reset_scan s =
     (if module_state s = Idle then pass s
      else if in_cw_mode_method_object then
        raise (RuntimeError ''Can not reset frequency scan. CW microwave output active.'') s
      else on_device (command_wait ABOR_SWE) s)"

subsection \<open>Activation\<close>

text \<open>\<open>str.split(',')\<close>\<close>

fun split_comma :: "string \<Rightarrow> string list" where
  "split_comma [] = [[]]"
| "split_comma (c # cs) =
     (if c = CHR '','' then [] # split_comma cs
      else (case split_comma cs of
              [] \<Rightarrow> [[c]]
            | w # ws \<Rightarrow> (c # w) # ws))"

text \<open>
  \<open>on_activate\<close> builds the object from the configuration option \<open>max_power\<close> (\<open>None\<close> when
  not configured) and the instrument. The source stores the second field of the identity
  answer in \<open>self._model\<close> (assigned in \<open>__init__\<close> and here, read nowhere) and then
  compares \<open>self.model\<close>. The class of this file defines no attribute \<open>model\<close> and never
  assigns one, so the read is an attribute lookup that can fail. \<open>model_attribute\<close> is what
  the lookup finds: \<open>None\<close> when the object has no such attribute, which is the object as
  this file defines it, and the read raises AttributeError before the constraints are
  built; \<open>Some model\<close> when something outside this file supplies one. The visa resource
  manager and the warning in the log are not modelled. The framework moves the module to
  idle once \<open>on_activate\<close> has returned. \<open>9e3\<close>, \<open>3.2e9\<close>, \<open>6e9\<close> and \<open>2870.0e6\<close> are
  written out.
\<close>

definition on_activate :: "real option \<Rightarrow> string option \<Rightarrow> (smbv, device) call" where
  "on_activate max_power model_attribute =
     bind query_idn (\<lambda>idn.
       if length (split_comma idn) < 2 then raise IndexError
       else
         seq (command_wait CLS)
        (seq (command_wait RST)
        (\<lambda>d.
           case model_attribute of
             None \<Rightarrow> raise AttributeError d
           | Some model \<Rightarrow>
              (let freq_limits =
                     (if model = ''SMB100A'' then (9000, 3200000000) else (9000, 6000000000));
                   c = \<lparr>power_limits =
                          (-145, case max_power of None \<Rightarrow> 30 | Some p \<Rightarrow> max (-145) p),
                        frequency_limits = freq_limits,
                        scan_size_limits = (2, 10001),
                        scan_modes = [EQUIDISTANT_SWEEP]\<rparr>
               in (Returns
                     \<lparr>module_state = Idle,
                      constraints = c,
                      cw_power = min_power c,
                      cw_frequency = 2870000000,
                      scan_power = min_power c,
                      scan_frequencies = None,
                      dev = d\<rparr>, d)))))"

subsection \<open>Vocabulary of the statements\<close>

text \<open>
  The cached setpoints of the data model: the CW setpoint (frequency, power) and the scan
  setpoint (scan power, stored scan frequencies).
\<close>

definition setpoints :: "smbv \<Rightarrow> (real \<times> real) \<times> (real \<times> real list option)" where
  "setpoints s = ((cw_frequency s, cw_power s), (scan_power s, scan_frequencies s))"

text \<open>
  Concrete inputs for the examples: an instrument that will give the listed answers to
  \<open>:FREQ:MODE?\<close>, \<open>*OPC?\<close> and \<open>:OUTP:STAT?\<close> and has been sent nothing yet, and the object
  with the cached values and the constraints that \<open>on_activate\<close> assigns for an SMBV model
  without a configured \<open>max_power\<close>.
\<close>

definition instrument :: "string list \<Rightarrow> real list \<Rightarrow> real list \<Rightarrow> device" where
  "instrument modes opcs outps =
     \<lparr>idn_answers = [], mode_answers = modes, opc_answers = opcs, outp_answers = outps,
      pow_answers = [], freq_answers = [], written = []\<rparr>"

definition activated :: "device \<Rightarrow> smbv" where
  "activated d =
     \<lparr>module_state = Idle,
      constraints = \<lparr>power_limits = (-145, 30), frequency_limits = (9000, 6000000000),
                     scan_size_limits = (2, 10001), scan_modes = [EQUIDISTANT_SWEEP]\<rparr>,
      cw_power = -145, cw_frequency = 2870000000, scan_power = -145,
      scan_frequencies = None, dev = d\<rparr>"

text \<open>
  How many of the answers to \<open>*OPC?\<close> still to come report operation complete: each
  \<open>_command_wait\<close> uses one up.
\<close>

definition opc_confirmations :: "device \<Rightarrow> nat" where
  "opc_confirmations d = length (filter (\<lambda>a. py_int a = 1) (opc_answers d))"

section \<open>Properties\<close>

subsection \<open>Basic facts about the calls\<close>

lemmas call_defs = bind_def seq_def pass_def raise_def on_device_def

lemma is_cw_CW: "is_cw (''CW\<newline>'')"
  by (simp add: is_cw_def lower_def lower_char_def strip_newline_def)

lemma is_cw_SWE: "\<not> is_cw ''SWE''"
  by (simp add: is_cw_def lower_def lower_char_def strip_newline_def)

lemma poll_Some_iff: "(\<exists>rest. poll again as = Some rest) \<longleftrightarrow> (\<exists>a\<in>set as. \<not> again a)"
  by (induction as) auto

lemma poll_None_iff: "poll again as = None \<longleftrightarrow> (\<forall>a\<in>set as. again a)"
  by (induction as) auto

lemma command_wait_eq:
  "command_wait c d =
     (case poll (\<lambda>a. py_int a \<noteq> 1) (opc_answers d) of
        None \<Rightarrow> (NoReturn, d\<lparr>written := written d @ [c, WAI], opc_answers := []\<rparr>)
      | Some rest \<Rightarrow> (Returns (), d\<lparr>written := written d @ [c, WAI], opc_answers := rest\<rparr>))"
  by (simp add: command_wait_def call_defs device_write_def poll_opc_def split: option.splits)

lemma in_cw_mode_eq:
  "in_cw_mode d =
     (case mode_answers d of
        [] \<Rightarrow> (NoReturn, d)
      | a # as \<Rightarrow> (Returns (is_cw a), d\<lparr>mode_answers := as\<rparr>))"
  by (simp add: in_cw_mode_def query_freq_mode_def call_defs split: list.splits)

lemma poll_opc_step:
  "Suc n \<le> length (filter (\<lambda>a. py_int a = 1) as) \<Longrightarrow>
     \<exists>rest. poll (\<lambda>a. py_int a \<noteq> 1) as = Some rest
          \<and> n \<le> length (filter (\<lambda>a. py_int a = 1) rest)"
  by (induction as) (auto split: if_splits)

text \<open>An answer that ends the loop is reached, and what comes after it is still to come.\<close>

lemma poll_past:
  "\<not> again a \<Longrightarrow> \<exists>r. poll again (xs @ a # ys) = Some r \<and> set ys \<subseteq> set r"
  by (induction xs) auto

text \<open>\<open>off\<close>, with its loop written as one poll.\<close>

lemma off_eq:
  "off s =
     (if module_state s \<noteq> Idle then
        (case poll (\<lambda>a. py_int a \<noteq> 0) (outp_answers (dev s)) of
           None \<Rightarrow>
             (NoReturn,
              s\<lparr>dev := (dev s)\<lparr>written := written (dev s) @ [OUTP_STAT_OFF, WAI],
                                outp_answers := []\<rparr>\<rparr>)
         | Some r \<Rightarrow>
             (Returns (),
              s\<lparr>dev := (dev s)\<lparr>written := written (dev s) @ [OUTP_STAT_OFF, WAI],
                                outp_answers := r\<rparr>,
                module_state := Idle\<rparr>))
      else (Returns (), s))"
  by (simp add: off_def call_defs device_write_def poll_outp_off_def unlock_def
      split: option.splits)

lemma off_keeps_setpoints: "setpoints (snd (off s)) = setpoints s"
  by (simp add: off_eq setpoints_def split: option.splits)

lemma off_returned_idle: "fst (off s) = Returns () \<Longrightarrow> module_state (snd (off s)) = Idle"
  by (simp add: off_eq split: option.splits if_splits)

text \<open>\<open>cw_on\<close>, case by case.\<close>

lemma cw_on_active:
  assumes "module_state s \<noteq> Idle" and "mode_answers (dev s) = m # ms"
  shows "cw_on s =
     (if is_cw m then (Returns (), s\<lparr>dev := (dev s)\<lparr>mode_answers := ms\<rparr>\<rparr>)
      else (Raises (RuntimeError
              ''Unable to start CW microwave output. Microwave output is currently active.''),
            s\<lparr>dev := (dev s)\<lparr>mode_answers := ms\<rparr>\<rparr>))"
  using assms by (simp add: cw_on_def call_defs in_cw_mode_eq)

lemma cw_on_idle_returned:
  assumes "module_state s = Idle" and "mode_answers (dev s) = m # ms"
    and "cw_on s = (Returns (), s')"
  shows "module_state s' = Locked \<and> setpoints s' = setpoints s
     \<and> written (dev s') = written (dev s) @
          (if is_cw m then []
           else [FREQ_MODE_CW, WAI, FREQ (cw_frequency s), WAI, POW (cw_power s), WAI]) @
          [OUTP_STAT_ON, WAI]
     \<and> poll (\<lambda>a. py_int a = 0) (outp_answers (dev s)) = Some (outp_answers (dev s'))"
  using assms
  by (auto simp add: cw_on_def call_defs in_cw_mode_eq command_wait_eq device_write_def
      poll_outp_on_def lock_def setpoints_def split: option.splits if_splits)

lemma cw_on_idle_not_returned:
  assumes "module_state s = Idle" and "fst (cw_on s) \<noteq> Returns ()"
  shows "module_state (snd (cw_on s)) = Idle"
  using assms
  by (auto simp add: cw_on_def call_defs in_cw_mode_eq command_wait_eq device_write_def
      poll_outp_on_def lock_def setpoints_def split: option.splits if_splits list.splits)

lemma cw_on_idle_returns:
  assumes "module_state s = Idle" and "mode_answers (dev s) = m # ms"
    and "is_cw m \<or> 3 \<le> opc_confirmations (dev s)"
    and "\<exists>a\<in>set (outp_answers (dev s)). py_int a \<noteq> 0"
  shows "fst (cw_on s) = Returns ()"
proof -
  from assms(4) obtain r where r: "poll (\<lambda>a. py_int a = 0) (outp_answers (dev s)) = Some r"
    using poll_Some_iff [of "\<lambda>a. py_int a = 0" "outp_answers (dev s)"] by blast
  show ?thesis
  proof (cases "is_cw m")
    case True
    with assms(1,2) r show ?thesis
      by (simp add: cw_on_def call_defs in_cw_mode_eq device_write_def poll_outp_on_def lock_def)
  next
    case False
    with assms(3) have three: "3 \<le> opc_confirmations (dev s)" by simp
    from three obtain r1 where p1: "poll (\<lambda>a. py_int a \<noteq> 1) (opc_answers (dev s)) = Some r1"
      and c1: "2 \<le> length (filter (\<lambda>a. py_int a = 1) r1)"
      using poll_opc_step [of 2 "opc_answers (dev s)"] by (auto simp add: opc_confirmations_def)
    from c1 obtain r2 where p2: "poll (\<lambda>a. py_int a \<noteq> 1) r1 = Some r2"
      and c2: "1 \<le> length (filter (\<lambda>a. py_int a = 1) r2)"
      using poll_opc_step [of 1 r1] by auto
    from c2 obtain r3 where p3: "poll (\<lambda>a. py_int a \<noteq> 1) r2 = Some r3"
      using poll_opc_step [of 0 r2] by auto
    from False assms(1,2) r p1 p2 p3 show ?thesis
      by (simp add: cw_on_def call_defs in_cw_mode_eq command_wait_eq device_write_def
          poll_outp_on_def lock_def)
  qed
qed

lemma cw_on_keeps_setpoints: "setpoints (snd (cw_on s)) = setpoints s"
  by (auto simp add: cw_on_def call_defs in_cw_mode_eq command_wait_eq device_write_def
      poll_outp_on_def lock_def setpoints_def split: option.splits if_splits list.splits)

text \<open>\<open>_write_sweep\<close> and the setter of \<open>scan_frequencies\<close> on a sequence of three.\<close>

lemma write_sweep_keeps_scan_frequencies:
  "scan_frequencies (snd (write_sweep s)) = scan_frequencies s"
  by (auto simp add: write_sweep_def call_defs in_cw_mode_eq command_wait_eq Let_def
      split: option.splits list.splits if_splits)

lemma write_sweep_never_raises:
  "scan_frequencies s = Some [start, stop, points] \<Longrightarrow> fst (write_sweep s) \<noteq> Raises e"
  by (auto simp add: write_sweep_def call_defs in_cw_mode_eq command_wait_eq Let_def
      split: option.splits list.splits if_splits)

lemma set_scan_frequencies_triple:
  assumes "module_state s = Idle" and "scan_size_in_range (constraints s) 3"
  shows "set_scan_frequencies [start, stop, points] s =
     (if frequency_in_range (constraints s) start \<and> frequency_in_range (constraints s) stop
         \<and> frequency_in_range (constraints s) points
      then write_sweep (s\<lparr>scan_frequencies := Some [start, stop, points]\<rparr>)
      else (Raises AssertionError, s))"
  using assms
  by (auto simp add: set_scan_frequencies_def raise_def frequency_in_range_def in_range_def
      min_def max_def)

text \<open>
  What \<open>_write_sweep\<close> sends for a stored triple, on an instrument that is in sweep mode
  and reports operation complete: the step is \<open>(stop - start) / (points - 1)\<close>, the sweep
  start \<open>start - step\<close>, the sweep stop \<open>stop\<close>.
\<close>

lemma write_sweep_programs:
  assumes "scan_frequencies s = Some [start, stop, points]"
    and "mode_answers (dev s) = m # ms" and "\<not> is_cw m"
    and "poll (\<lambda>a. py_int a \<noteq> 1) (opc_answers (dev s)) = Some rest"
  shows "write_sweep s =
     (Returns (),
      s\<lparr>dev := (dev s)\<lparr>mode_answers := ms, opc_answers := rest,
           written := written (dev s) @
             [SWE_MODE_STEP, SWE_SPAC_LIN, WAI,
              FREQ_START (start - (stop - start) / (points - 1)), FREQ_STOP stop,
              SWE_STEP_LIN ((stop - start) / (points - 1)), WAI,
              POW (scan_power s), WAI, TRIG_FSW_SOUR_EXT, WAI]\<rparr>\<rparr>)"
  using assms
  by (simp add: write_sweep_def call_defs in_cw_mode_eq command_wait_eq Let_def)

text \<open>With the triple (1e9, 2e9, 5) stored: step 0.25e9, sweep start 0.75e9.\<close>

lemma write_sweep_example:
  "write_sweep ((activated (instrument [''SWE''] [1] []))
       \<lparr>scan_frequencies := Some [1000000000, 2000000000, 5]\<rparr>) =
     (Returns (),
      (activated ((instrument [] [] [])\<lparr>written :=
         [SWE_MODE_STEP, SWE_SPAC_LIN, WAI,
          FREQ_START 750000000, FREQ_STOP 2000000000, SWE_STEP_LIN 250000000, WAI,
          POW (-145), WAI, TRIG_FSW_SOUR_EXT, WAI]\<rparr>))
       \<lparr>scan_frequencies := Some [1000000000, 2000000000, 5]\<rparr>)"
  by (simp add: write_sweep_def call_defs in_cw_mode_eq command_wait_eq Let_def
      activated_def instrument_def is_cw_SWE py_int_def)

text \<open>\<open>start_scan\<close> and \<open>reset_scan\<close> on an idle module.\<close>

lemma start_scan_idle_unset:
  "module_state s = Idle \<Longrightarrow> scan_frequencies s = None \<Longrightarrow>
     start_scan s = (Raises AssertionError, s)"
  by (simp add: start_scan_def raise_def)

lemma reset_scan_idle: "module_state s = Idle \<Longrightarrow> reset_scan s = (Returns (), s)"
  by (simp add: reset_scan_def pass_def)

text \<open>
  \<open>start_scan\<close> on an idle module with a stored sequence: when it returns, the lock is
  set and the instrument was switched to sweep mode if it was in CW mode.
\<close>

lemma start_scan_idle_returned:
  assumes "module_state s = Idle" and "scan_frequencies s = Some fs"
    and "mode_answers (dev s) = m # ms" and "start_scan s = (Returns (), s')"
  shows "module_state s' = Locked \<and> setpoints s' = setpoints s
     \<and> written (dev s') = written (dev s) @
          (if is_cw m then [FREQ_MODE_SWEEP, WAI] else []) @ [OUTP_STAT_ON]
     \<and> poll (\<lambda>a. py_int a = 0) (outp_answers (dev s)) = Some (outp_answers (dev s'))"
  using assms
  by (auto simp add: start_scan_def call_defs in_cw_mode_eq command_wait_eq device_write_def
      poll_outp_on_def lock_def setpoints_def split: option.splits if_splits)

text \<open>
  Out of bounds while idle: the setters of \<open>cw_power\<close>, \<open>cw_frequency\<close> and \<open>scan_power\<close>
  fail their assertion and leave the object as it was.
\<close>

lemma scalar_setters_out_of_bounds:
  assumes "module_state s = Idle"
  shows "\<not> power_in_range (constraints s) p \<Longrightarrow> set_cw_power p s = (Raises AssertionError, s)"
    and "\<not> frequency_in_range (constraints s) f \<Longrightarrow>
           set_cw_frequency f s = (Raises AssertionError, s)"
    and "\<not> power_in_range (constraints s) p \<Longrightarrow> set_scan_power p s = (Raises AssertionError, s)"
  using assms by (simp_all add: set_cw_power_def set_cw_frequency_def set_scan_power_def raise_def)

text \<open>
  An instrument in CW mode that reports the output on and goes on reporting it on, for
  as many answers as it gives: \<open>off(); cw_on(); off()\<close> from idle has not returned, and the
  lock is set.
\<close>

lemma cw_cycle_output_stays_on:
  assumes "module_state s = Idle" and "mode_answers (dev s) = m # ms" and "is_cw m"
    and "outp_answers (dev s) = a # as" and "py_int a \<noteq> 0" and "\<forall>x\<in>set as. py_int x \<noteq> 0"
  shows "fst (seq off (seq cw_on off) s) = NoReturn
     \<and> module_state (snd (seq off (seq cw_on off) s)) = Locked"
proof -
  from assms(6) have "poll (\<lambda>a. py_int a \<noteq> 0) as = None"
    by (simp add: poll_None_iff)
  with assms(1-5) show ?thesis
    by (simp add: off_eq cw_on_def call_defs in_cw_mode_eq device_write_def poll_outp_on_def
        lock_def)
qed

text \<open>
  The object \<open>activated\<close> is what \<open>on_activate\<close> returns when the attribute \<open>model\<close> is
  supplied and the instrument identifies itself and reports operation complete for
  \<open>*CLS\<close> and \<open>*RST\<close>.
\<close>

lemma on_activate_example:
  "on_activate None (Some ''SMBV100A'')
     ((instrument [] [1, 1] [])\<lparr>idn_answers := [''Rohde-Schwarz,SMBV100A,257001,3.1.19'']\<rparr>) =
   (Returns (activated ((instrument [] [] [])\<lparr>written := [CLS, WAI, RST, WAI]\<rparr>)),
    (instrument [] [] [])\<lparr>written := [CLS, WAI, RST, WAI]\<rparr>)"
  by (simp add: on_activate_def call_defs query_idn_def command_wait_eq instrument_def
      activated_def py_int_def min_power_def)

text \<open>
  The power limits of lines 84 to 89, for an object that has the attribute \<open>model\<close>: when
  the instrument answers \<open>*IDN?\<close> with at least two fields and reports operation complete
  twice, \<open>on_activate\<close> returns, the lower power limit is -145 dBm, and the upper limit is
  30 dBm for an unconfigured \<open>max_power\<close> and \<open>max(-145, max_power)\<close> otherwise, so a
  configured value above 30 is not capped.
\<close>

lemma on_activate_power_limits_given_model:
  assumes "idn_answers d = idn # rest" and "2 \<le> length (split_comma idn)"
    and "2 \<le> opc_confirmations d"
  shows "\<exists>s d'. on_activate max_power (Some model) d = (Returns s, d')
     \<and> fst (power_limits (constraints s)) = -145
     \<and> snd (power_limits (constraints s)) =
         (case max_power of None \<Rightarrow> 30 | Some p \<Rightarrow> max (-145) p)"
proof -
  from assms(3) obtain r1 where p1: "poll (\<lambda>a. py_int a \<noteq> 1) (opc_answers d) = Some r1"
    and c1: "1 \<le> length (filter (\<lambda>a. py_int a = 1) r1)"
    using poll_opc_step [of 1 "opc_answers d"] by (auto simp add: opc_confirmations_def)
  from c1 obtain r2 where p2: "poll (\<lambda>a. py_int a \<noteq> 1) r1 = Some r2"
    using poll_opc_step [of 0 r1] by auto
  from assms(1,2) p1 p2 show ?thesis
    by (simp add: on_activate_def call_defs query_idn_def command_wait_eq Let_def)
qed

subsection \<open>C1: no setpoint changes while the output is locked\<close>

text \<open>
  C1. When the output lock flag is set (the module state is not idle), each of the six
  setters (\<open>cw_frequency\<close>, \<open>cw_power\<close>, \<open>scan_power\<close>, \<open>scan_frequencies\<close>, \<open>scan_mode\<close>,
  \<open>trigger_edge\<close>) raises RuntimeError and leaves the whole object, the cached setpoints
  and the instrument included, as it was. The four other calls that change anything
  (\<open>off\<close>, \<open>cw_on\<close>, \<open>start_scan\<close>, \<open>reset_scan\<close>) leave the cached setpoints as they were.
  So the setpoints change only while the flag is clear.
\<close>

theorem setters_refuse_when_locked:
  assumes "module_state s \<noteq> Idle"
  shows "set_cw_frequency f s =
           (Raises (RuntimeError ''Unable to set cw_frequency. Microwave output is active.''), s)
    \<and> set_cw_power p s =
           (Raises (RuntimeError ''Unable to set cw_power. Microwave output is active.''), s)
    \<and> set_scan_power p s =
           (Raises (RuntimeError ''Unable to set scan_power. Microwave output is active.''), s)
    \<and> set_scan_frequencies fs s =
           (Raises (RuntimeError
              ''Unable to set scan_frequencies. Microwave output is active.''), s)
    \<and> set_scan_mode m s =
           (Raises (RuntimeError ''Unable to set scan_mode. Microwave output is active.''), s)
    \<and> set_trigger_edge e s =
           (Raises (RuntimeError ''Unable to set trigger_edge. Microwave output is active.''), s)
    \<and> setpoints (snd (off s)) = setpoints s
    \<and> setpoints (snd (cw_on s)) = setpoints s
    \<and> setpoints (snd (start_scan s)) = setpoints s
    \<and> setpoints (snd (reset_scan s)) = setpoints s"
proof -
  have setters: "set_cw_frequency f s =
           (Raises (RuntimeError ''Unable to set cw_frequency. Microwave output is active.''), s)
    \<and> set_cw_power p s =
           (Raises (RuntimeError ''Unable to set cw_power. Microwave output is active.''), s)
    \<and> set_scan_power p s =
           (Raises (RuntimeError ''Unable to set scan_power. Microwave output is active.''), s)
    \<and> set_scan_frequencies fs s =
           (Raises (RuntimeError
              ''Unable to set scan_frequencies. Microwave output is active.''), s)
    \<and> set_scan_mode m s =
           (Raises (RuntimeError ''Unable to set scan_mode. Microwave output is active.''), s)
    \<and> set_trigger_edge e s =
           (Raises (RuntimeError ''Unable to set trigger_edge. Microwave output is active.''), s)"
    using assms
    by (simp add: set_cw_frequency_def set_cw_power_def set_scan_power_def
        set_scan_frequencies_def set_scan_mode_def set_trigger_edge_def raise_def)
  have switches: "setpoints (snd (off s)) = setpoints s
    \<and> setpoints (snd (cw_on s)) = setpoints s
    \<and> setpoints (snd (start_scan s)) = setpoints s
    \<and> setpoints (snd (reset_scan s)) = setpoints s"
    using assms
    by (simp add: off_def cw_on_def start_scan_def reset_scan_def in_cw_mode_method_object_def
        call_defs in_cw_mode_eq device_write_def poll_outp_off_def unlock_def setpoints_def
        split: list.splits option.splits)
  from setters switches show ?thesis by simp
qed

text \<open>The theorem at a locked object, with the cached values of the activation.\<close>

theorem setters_refuse_when_locked_witness:
  "module_state ((activated (instrument [''SWE''] [1] [0]))\<lparr>module_state := Locked\<rparr>) \<noteq> Idle
   \<and> set_cw_power 0 ((activated (instrument [''SWE''] [1] [0]))\<lparr>module_state := Locked\<rparr>) =
       (Raises (RuntimeError ''Unable to set cw_power. Microwave output is active.''),
        (activated (instrument [''SWE''] [1] [0]))\<lparr>module_state := Locked\<rparr>)
   \<and> cw_power (snd (set_cw_power 0
         ((activated (instrument [''SWE''] [1] [0]))\<lparr>module_state := Locked\<rparr>))) = -145
   \<and> scan_frequencies (snd (set_scan_frequencies [1000000000, 2000000000, 9001]
         ((activated (instrument [''SWE''] [1] [0]))\<lparr>module_state := Locked\<rparr>))) = None"
proof -
  have locked:
    "module_state ((activated (instrument [''SWE''] [1] [0]))\<lparr>module_state := Locked\<rparr>) \<noteq> Idle"
    by simp
  show ?thesis
    using setters_refuse_when_locked [OF locked, of _ 0 "[1000000000, 2000000000, 9001]"]
    by (simp add: activated_def)
qed

subsection \<open>C2: the setter of scan\_frequencies tests the count as a frequency\<close>

text \<open>
  C2. The claim: every triple (start, stop, count) with start and stop in the frequency
  range and count in the scan-size range is accepted while idle. The code tests
  \<open>min(value)\<close> and \<open>max(value)\<close> of the whole triple against the frequency range, so
  the count is tested as a frequency: while idle, a triple whose count lies below the
  lower frequency limit fails the assertion and nothing is stored or sent. After
  activation the lower frequency limit is 9000 Hz, so (1e9, 2e9, 5) is refused although
  each of its bounds is allowed.
\<close>

theorem scan_frequencies_count_below_frequency_limit:
  "module_state s = Idle \<Longrightarrow> points < fst (frequency_limits (constraints s)) \<Longrightarrow>
     set_scan_frequencies [start, stop, points] s = (Raises AssertionError, s)"
  by (auto simp add: set_scan_frequencies_def raise_def frequency_in_range_def in_range_def
      min_def max_def)

theorem scan_frequencies_count_below_frequency_limit_witness:
  "module_state (activated (instrument [''CW\<newline>''] [1, 1] [])) = Idle
   \<and> frequency_in_range (constraints (activated (instrument [''CW\<newline>''] [1, 1] [])))
        1000000000
   \<and> frequency_in_range (constraints (activated (instrument [''CW\<newline>''] [1, 1] [])))
        2000000000
   \<and> scan_size_in_range (constraints (activated (instrument [''CW\<newline>''] [1, 1] []))) 5
   \<and> set_scan_frequencies [1000000000, 2000000000, 5]
        (activated (instrument [''CW\<newline>''] [1, 1] [])) =
       (Raises AssertionError, activated (instrument [''CW\<newline>''] [1, 1] []))"
  using scan_frequencies_count_below_frequency_limit
    [of "activated (instrument [''CW\<newline>''] [1, 1] [])" 5 1000000000 2000000000]
  by (simp add: activated_def frequency_in_range_def scan_size_in_range_def in_range_def)

subsection \<open>C3: the sweep of the example (1e9, 2e9, 5) is never programmed\<close>

text \<open>
  C3. \<open>_write_sweep\<close> computes the step and the sweep start as the claim says (lemmas
  \<open>write_sweep_programs\<close> and \<open>write_sweep_example\<close>), but the example of the claim does
  not get there: on the activated, idle object, setting scan frequencies (1e9, 2e9, 5)
  raises AssertionError, sends nothing to the instrument and stores no triple.
\<close>

theorem sweep_example_not_programmed:
  "fst (set_scan_frequencies [1000000000, 2000000000, 5]
          (activated (instrument [''CW\<newline>''] [1, 1] []))) = Raises AssertionError
   \<and> written (dev (snd (set_scan_frequencies [1000000000, 2000000000, 5]
          (activated (instrument [''CW\<newline>''] [1, 1] []))))) = []
   \<and> scan_frequencies (snd (set_scan_frequencies [1000000000, 2000000000, 5]
          (activated (instrument [''CW\<newline>''] [1, 1] [])))) = None"
  by (simp add: set_scan_frequencies_def raise_def frequency_in_range_def in_range_def
      activated_def instrument_def)

subsection \<open>C4: start\_scan on an active module\<close>

text \<open>
  C4. The claim: on an active module, \<open>start_scan\<close> raises when the instrument is in CW
  mode and returns without error when it is already in sweep mode. The code tests the
  method object \<open>self._in_cw_mode\<close> instead of calling it, so on an active module
  \<open>start_scan\<close> raises RuntimeError whatever the mode of the instrument, without a query.
\<close>

theorem start_scan_active_raises:
  "module_state s \<noteq> Idle \<Longrightarrow>
     start_scan s =
       (Raises (RuntimeError ''Unable to start frequency scan. CW microwave output is active.''),
        s)"
  by (simp add: start_scan_def in_cw_mode_method_object_def raise_def)

text \<open>An active module whose instrument is in sweep mode.\<close>

theorem start_scan_active_raises_witness:
  "module_state ((activated (instrument [''SWE''] [] []))\<lparr>module_state := Locked\<rparr>) \<noteq> Idle
   \<and> \<not> is_cw (hd (mode_answers (dev
         ((activated (instrument [''SWE''] [] []))\<lparr>module_state := Locked\<rparr>))))
   \<and> start_scan ((activated (instrument [''SWE''] [] []))\<lparr>module_state := Locked\<rparr>) =
       (Raises (RuntimeError ''Unable to start frequency scan. CW microwave output is active.''),
        (activated (instrument [''SWE''] [] []))\<lparr>module_state := Locked\<rparr>)"
  using start_scan_active_raises
    [of "(activated (instrument [''SWE''] [] []))\<lparr>module_state := Locked\<rparr>"]
  by (simp add: activated_def instrument_def is_cw_SWE)

subsection \<open>C5: reset\_scan on an active module\<close>

text \<open>
  C5. The claim: on an active module whose instrument is in sweep mode, \<open>reset_scan\<close>
  sends \<open>:ABOR:SWE\<close>. The code tests the method object \<open>self._in_cw_mode\<close> instead of
  calling it, so on an active module \<open>reset_scan\<close> raises RuntimeError whatever the mode
  of the instrument and sends nothing.
\<close>

theorem reset_scan_active_raises:
  "module_state s \<noteq> Idle \<Longrightarrow>
     reset_scan s =
       (Raises (RuntimeError ''Can not reset frequency scan. CW microwave output active.''), s)"
  by (simp add: reset_scan_def in_cw_mode_method_object_def raise_def)

theorem reset_scan_active_raises_witness:
  "module_state ((activated (instrument [''SWE''] [1] []))\<lparr>module_state := Locked\<rparr>) \<noteq> Idle
   \<and> \<not> is_cw (hd (mode_answers (dev
         ((activated (instrument [''SWE''] [1] []))\<lparr>module_state := Locked\<rparr>))))
   \<and> fst (reset_scan ((activated (instrument [''SWE''] [1] []))\<lparr>module_state := Locked\<rparr>)) =
       Raises (RuntimeError ''Can not reset frequency scan. CW microwave output active.'')
   \<and> ABOR_SWE \<notin> set (written (dev (snd (reset_scan
         ((activated (instrument [''SWE''] [1] []))\<lparr>module_state := Locked\<rparr>)))))"
  using reset_scan_active_raises
    [of "(activated (instrument [''SWE''] [1] []))\<lparr>module_state := Locked\<rparr>"]
  by (simp add: activated_def instrument_def is_cw_SWE)

subsection \<open>C6: cw\_on\<close>

text \<open>
  C6, as stated, fails: on an idle module whose instrument is already in CW mode,
  \<open>cw_on\<close> returns with the lock set and has sent only \<open>:OUTP:STAT ON\<close> and \<open>*WAI\<close>.
  Neither the cached frequency nor the cached power is written.
\<close>

theorem cw_on_idle_in_cw_writes_no_setpoint:
  "module_state (activated (instrument [''CW\<newline>''] [] [1])) = Idle
   \<and> cw_on (activated (instrument [''CW\<newline>''] [] [1])) =
       (Returns (),
        (activated ((instrument [] [] [])\<lparr>written := [OUTP_STAT_ON, WAI]\<rparr>))
          \<lparr>module_state := Locked\<rparr>)
   \<and> FREQ (cw_frequency (activated (instrument [''CW\<newline>''] [] [1])))
        \<notin> set (written (dev (snd (cw_on (activated (instrument [''CW\<newline>''] [] [1]))))))
   \<and> POW (cw_power (activated (instrument [''CW\<newline>''] [] [1])))
        \<notin> set (written (dev (snd (cw_on (activated (instrument [''CW\<newline>''] [] [1]))))))"
  by (simp add: cw_on_def call_defs in_cw_mode_eq device_write_def poll_outp_on_def lock_def
      activated_def instrument_def is_cw_CW py_int_def)

text \<open>
  C6, amended. Let the instrument answer the mode query with \<open>m\<close>.
  \<^item> Active and not in CW mode: \<open>cw_on\<close> raises RuntimeError; nothing is written.
  \<^item> Active and in CW mode: \<open>cw_on\<close> returns; nothing is written and the lock stays.
  \<^item> Idle: when \<open>cw_on\<close> returns, the lock is set, the cached setpoints are as before,
    and what was written is: only if the instrument was not in CW mode, the switch to CW
    mode, the cached frequency and the cached power, each followed by \<open>*WAI\<close>; then, in
    both cases, \<open>:OUTP:STAT ON\<close> and \<open>*WAI\<close>. The answers to \<open>:OUTP:STAT?\<close> were read up to
    the first that is not 0.
  \<^item> Idle: \<open>cw_on\<close> does return when an answer to \<open>:OUTP:STAT?\<close> is not 0 and, if the
    instrument was not in CW mode, three answers to \<open>*OPC?\<close> are 1.
  \<^item> Idle: when \<open>cw_on\<close> does not return, the lock is not set.
\<close>

theorem cw_on_behaviour:
  assumes "mode_answers (dev s) = m # ms"
  shows "(module_state s \<noteq> Idle \<and> \<not> is_cw m \<longrightarrow>
            cw_on s = (Raises (RuntimeError
              ''Unable to start CW microwave output. Microwave output is currently active.''),
              s\<lparr>dev := (dev s)\<lparr>mode_answers := ms\<rparr>\<rparr>))
    \<and> (module_state s \<noteq> Idle \<and> is_cw m \<longrightarrow>
            cw_on s = (Returns (), s\<lparr>dev := (dev s)\<lparr>mode_answers := ms\<rparr>\<rparr>))
    \<and> (module_state s = Idle \<and> cw_on s = (Returns (), s') \<longrightarrow>
            module_state s' = Locked \<and> setpoints s' = setpoints s
          \<and> written (dev s') = written (dev s) @
               (if is_cw m then []
                else [FREQ_MODE_CW, WAI, FREQ (cw_frequency s), WAI, POW (cw_power s), WAI]) @
               [OUTP_STAT_ON, WAI]
          \<and> poll (\<lambda>a. py_int a = 0) (outp_answers (dev s)) = Some (outp_answers (dev s')))
    \<and> (module_state s = Idle \<and> (is_cw m \<or> 3 \<le> opc_confirmations (dev s))
          \<and> (\<exists>a\<in>set (outp_answers (dev s)). py_int a \<noteq> 0) \<longrightarrow>
            fst (cw_on s) = Returns ())
    \<and> (module_state s = Idle \<and> fst (cw_on s) \<noteq> Returns () \<longrightarrow>
            module_state (snd (cw_on s)) = Idle)"
  using cw_on_active [OF _ assms] cw_on_idle_returned [OF _ assms]
    cw_on_idle_returns [OF _ assms] cw_on_idle_not_returned [of s]
  by simp

text \<open>
  The theorem on an idle module whose instrument is in sweep mode, reports operation
  complete three times and confirms the output at the second poll; and on an active
  module whose instrument is in sweep mode.
\<close>

theorem cw_on_behaviour_witness:
  "module_state (activated (instrument [''SWE''] [1, 1, 1] [0, 1])) = Idle
   \<and> \<not> is_cw ''SWE''
   \<and> 3 \<le> opc_confirmations (dev (activated (instrument [''SWE''] [1, 1, 1] [0, 1])))
   \<and> fst (cw_on (activated (instrument [''SWE''] [1, 1, 1] [0, 1]))) = Returns ()
   \<and> module_state (snd (cw_on (activated (instrument [''SWE''] [1, 1, 1] [0, 1])))) = Locked
   \<and> written (dev (snd (cw_on (activated (instrument [''SWE''] [1, 1, 1] [0, 1]))))) =
       [FREQ_MODE_CW, WAI, FREQ 2870000000, WAI, POW (-145), WAI, OUTP_STAT_ON, WAI]
   \<and> fst (cw_on ((activated (instrument [''SWE''] [] []))\<lparr>module_state := Locked\<rparr>)) =
       Raises (RuntimeError
         ''Unable to start CW microwave output. Microwave output is currently active.'')"
proof -
  let ?s = "activated (instrument [''SWE''] [1, 1, 1] [0, 1])"
  let ?t = "(activated (instrument [''SWE''] [] []))\<lparr>module_state := Locked\<rparr>"
  have mode: "mode_answers (dev ?s) = ''SWE'' # []"
    by (simp add: activated_def instrument_def)
  have given: "module_state ?s = Idle \<and> \<not> is_cw ''SWE'' \<and> 3 \<le> opc_confirmations (dev ?s)
      \<and> (\<exists>a\<in>set (outp_answers (dev ?s)). py_int a \<noteq> 0)"
    by (simp add: activated_def instrument_def is_cw_SWE opc_confirmations_def py_int_def)
  from cw_on_behaviour [OF mode, of "snd (cw_on ?s)"] given
  have returned: "fst (cw_on ?s) = Returns ()" by blast
  then have pair: "cw_on ?s = (Returns (), snd (cw_on ?s))"
    by (simp add: prod_eq_iff)
  from cw_on_behaviour [OF mode, of "snd (cw_on ?s)"] given pair
  have after: "module_state (snd (cw_on ?s)) = Locked
      \<and> written (dev (snd (cw_on ?s))) = written (dev ?s) @
          [FREQ_MODE_CW, WAI, FREQ (cw_frequency ?s), WAI, POW (cw_power ?s), WAI] @
          [OUTP_STAT_ON, WAI]"
    by simp
  have mode': "mode_answers (dev ?t) = ''SWE'' # []"
    by (simp add: activated_def instrument_def)
  have "module_state ?t \<noteq> Idle" by simp
  with cw_on_behaviour [OF mode', of "snd (cw_on ?t)"] given
  have active: "fst (cw_on ?t) = Raises (RuntimeError
         ''Unable to start CW microwave output. Microwave output is currently active.'')"
    by simp
  from given returned after active show ?thesis
    by (simp add: activated_def instrument_def)
qed

subsection \<open>C7: a count outside the scan-size range is accepted\<close>

text \<open>
  C7. The claim: a value outside the bounds of the constraints is refused by its setter.
  For \<open>cw_power\<close>, \<open>cw_frequency\<close> and \<open>scan_power\<close> the code does so. The setter of
  \<open>scan_frequencies\<close> tests \<open>len(value)\<close>, which is 3 for a triple, against the scan-size
  range and never the count: while idle, a triple whose three entries all lie in the
  frequency range is stored, and no error is raised, whatever the scan-size range says
  about its count.
\<close>

theorem scan_frequencies_count_not_checked:
  assumes "module_state s = Idle" and "scan_size_in_range (constraints s) 3"
    and "frequency_in_range (constraints s) start"
    and "frequency_in_range (constraints s) stop"
    and "frequency_in_range (constraints s) points"
  shows "scan_frequencies (snd (set_scan_frequencies [start, stop, points] s)) =
           Some [start, stop, points]
       \<and> (\<forall>e. fst (set_scan_frequencies [start, stop, points] s) \<noteq> Raises e)"
proof -
  have "set_scan_frequencies [start, stop, points] s =
      write_sweep (s\<lparr>scan_frequencies := Some [start, stop, points]\<rparr>)"
    using assms by (simp add: set_scan_frequencies_triple)
  then show ?thesis
    using write_sweep_keeps_scan_frequencies
            [of "s\<lparr>scan_frequencies := Some [start, stop, points]\<rparr>"]
          write_sweep_never_raises
            [of "s\<lparr>scan_frequencies := Some [start, stop, points]\<rparr>" start stop points]
    by simp
qed

text \<open>
  The count 20000 is outside the scan-size range (2, 10001); the setter returns, the
  triple is stored and the sweep is programmed.
\<close>

theorem scan_frequencies_count_not_checked_witness:
  "module_state (activated (instrument [''CW\<newline>''] [1, 1] [])) = Idle
   \<and> \<not> scan_size_in_range (constraints (activated (instrument [''CW\<newline>''] [1, 1] [])))
          20000
   \<and> fst (set_scan_frequencies [1000000000, 2000000000, 20000]
        (activated (instrument [''CW\<newline>''] [1, 1] []))) = Returns ()
   \<and> scan_frequencies (snd (set_scan_frequencies [1000000000, 2000000000, 20000]
        (activated (instrument [''CW\<newline>''] [1, 1] [])))) =
       Some [1000000000, 2000000000, 20000]"
proof -
  have "fst (set_scan_frequencies [1000000000, 2000000000, 20000]
        (activated (instrument [''CW\<newline>''] [1, 1] []))) = Returns ()"
    by (simp add: set_scan_frequencies_def raise_def frequency_in_range_def in_range_def
        scan_size_in_range_def write_sweep_def call_defs in_cw_mode_eq command_wait_eq Let_def
        activated_def instrument_def is_cw_CW py_int_def)
  moreover have "scan_frequencies (snd (set_scan_frequencies [1000000000, 2000000000, 20000]
        (activated (instrument [''CW\<newline>''] [1, 1] [])))) =
       Some [1000000000, 2000000000, 20000]"
    using scan_frequencies_count_not_checked
      [of "activated (instrument [''CW\<newline>''] [1, 1] [])" 1000000000 2000000000 20000]
    by (simp add: activated_def frequency_in_range_def scan_size_in_range_def in_range_def)
  ultimately show ?thesis
    by (simp add: activated_def scan_size_in_range_def in_range_def)
qed

subsection \<open>C8: setting the scan mode\<close>

text \<open>
  C8, as stated, fails: on the activated, idle object with a stored triple, setting
  \<open>scan_mode\<close> to \<open>JUMP_LIST\<close>, which the constraints do not support, raises
  AssertionError and the stored triple stays.
\<close>

theorem scan_mode_jump_list_keeps_triple:
  "module_state ((activated (instrument [] [] []))
       \<lparr>scan_frequencies := Some [1000000000, 2000000000, 9001]\<rparr>) = Idle
   \<and> fst (set_scan_mode JUMP_LIST ((activated (instrument [] [] []))
       \<lparr>scan_frequencies := Some [1000000000, 2000000000, 9001]\<rparr>)) = Raises AssertionError
   \<and> scan_frequencies (snd (set_scan_mode JUMP_LIST ((activated (instrument [] [] []))
       \<lparr>scan_frequencies := Some [1000000000, 2000000000, 9001]\<rparr>))) =
       Some [1000000000, 2000000000, 9001]"
  by (simp add: set_scan_mode_def raise_def mode_supported_def activated_def)

text \<open>
  C8, amended. While idle, setting \<open>scan_mode\<close> to a mode the constraints support clears
  the stored scan-frequency triple; setting a mode they do not support raises
  AssertionError and leaves the object as it was.
\<close>

theorem scan_mode_supported_clears:
  "module_state s = Idle \<Longrightarrow>
     set_scan_mode m s =
       (if mode_supported (constraints s) m then (Returns (), s\<lparr>scan_frequencies := None\<rparr>)
        else (Raises AssertionError, s))"
  by (simp add: set_scan_mode_def raise_def)

theorem scan_mode_supported_clears_witness:
  "module_state ((activated (instrument [] [] []))
       \<lparr>scan_frequencies := Some [1000000000, 2000000000, 9001]\<rparr>) = Idle
   \<and> mode_supported (constraints ((activated (instrument [] [] []))
       \<lparr>scan_frequencies := Some [1000000000, 2000000000, 9001]\<rparr>)) EQUIDISTANT_SWEEP
   \<and> fst (set_scan_mode EQUIDISTANT_SWEEP ((activated (instrument [] [] []))
       \<lparr>scan_frequencies := Some [1000000000, 2000000000, 9001]\<rparr>)) = Returns ()
   \<and> scan_frequencies (snd (set_scan_mode EQUIDISTANT_SWEEP ((activated (instrument [] [] []))
       \<lparr>scan_frequencies := Some [1000000000, 2000000000, 9001]\<rparr>))) = None"
  using scan_mode_supported_clears
    [of "(activated (instrument [] [] []))
           \<lparr>scan_frequencies := Some [1000000000, 2000000000, 9001]\<rparr>" EQUIDISTANT_SWEEP]
  by (simp add: mode_supported_def activated_def)

subsection \<open>C9: off, cw\_on, off\<close>

text \<open>
  C9, as stated, fails: the driver has no timeout, so whether the sequence ends is up to
  the instrument. On an idle module whose instrument confirms the output on and then
  keeps answering 1 to \<open>OUTP:STAT?\<close>, the second \<open>off\<close> does not return and the lock is
  still set.
\<close>

theorem cw_cycle_stuck_locked:
  "module_state (activated (instrument [''CW\<newline>''] [] [1, 1, 1])) = Idle
   \<and> fst (seq off (seq cw_on off) (activated (instrument [''CW\<newline>''] [] [1, 1, 1]))) =
       NoReturn
   \<and> module_state
       (snd (seq off (seq cw_on off) (activated (instrument [''CW\<newline>''] [] [1, 1, 1])))) =
       Locked"
  by (simp add: off_eq cw_on_def call_defs in_cw_mode_eq device_write_def poll_outp_on_def
      lock_def activated_def instrument_def is_cw_CW py_int_def)

text \<open>
  C9, amended. Starting from any idle state, \<open>off(); cw_on(); off()\<close> leaves the cached
  setpoints, the CW setpoint among them, as they were, however the calls end; when the
  sequence returns, the output lock flag is false; and it does return when the instrument
  answers the mode query, reports operation complete three times if it was not in CW
  mode, and answers \<open>:OUTP:STAT?\<close> with a value that is not 0 and later with 0.
\<close>

theorem off_cw_on_off:
  assumes "module_state s = Idle"
  shows "setpoints (snd (seq off (seq cw_on off) s)) = setpoints s
    \<and> cw_frequency (snd (seq off (seq cw_on off) s)) = cw_frequency s
    \<and> cw_power (snd (seq off (seq cw_on off) s)) = cw_power s
    \<and> (fst (seq off (seq cw_on off) s) = Returns () \<longrightarrow>
          module_state (snd (seq off (seq cw_on off) s)) = Idle)
    \<and> (mode_answers (dev s) = m # ms \<and> (is_cw m \<or> 3 \<le> opc_confirmations (dev s))
        \<and> outp_answers (dev s) = pre @ a # mid @ z # rest \<and> py_int a \<noteq> 0 \<and> py_int z = 0 \<longrightarrow>
          fst (seq off (seq cw_on off) s) = Returns ()
        \<and> module_state (snd (seq off (seq cw_on off) s)) = Idle)"
proof -
  have first: "off s = (Returns (), s)"
    using assms by (simp add: off_eq)
  have run: "seq off (seq cw_on off) s =
      (case cw_on s of
         (Returns u, s1) \<Rightarrow> off s1
       | (Raises e, s1) \<Rightarrow> (Raises e, s1)
       | (NoReturn, s1) \<Rightarrow> (NoReturn, s1))"
    by (simp add: seq_def bind_def first)
  have keeps: "setpoints (snd (seq off (seq cw_on off) s)) = setpoints s"
    using cw_on_keeps_setpoints [of s] off_keeps_setpoints [of "snd (cw_on s)"]
    by (auto simp add: run split: prod.splits outcome.splits)
  then have cw: "cw_frequency (snd (seq off (seq cw_on off) s)) = cw_frequency s
      \<and> cw_power (snd (seq off (seq cw_on off) s)) = cw_power s"
    by (simp add: setpoints_def)
  have ends: "fst (seq off (seq cw_on off) s) = Returns () \<longrightarrow>
      module_state (snd (seq off (seq cw_on off) s)) = Idle"
    using off_returned_idle [of "snd (cw_on s)"]
    by (auto simp add: run split: prod.splits outcome.splits)
  have returns: "fst (seq off (seq cw_on off) s) = Returns ()"
    if mode: "mode_answers (dev s) = m # ms"
      and opc: "is_cw m \<or> 3 \<le> opc_confirmations (dev s)"
      and outp: "outp_answers (dev s) = pre @ a # mid @ z # rest"
      and a: "py_int a \<noteq> 0" and z: "py_int z = 0"
  proof -
    from outp a have "\<exists>a\<in>set (outp_answers (dev s)). py_int a \<noteq> 0" by auto
    from cw_on_idle_returns [OF assms mode opc this]
    obtain s1 where on: "cw_on s = (Returns (), s1)"
      by (cases "cw_on s") auto
    from cw_on_idle_returned [OF assms mode on]
    have locked: "module_state s1 = Locked"
      and left: "poll (\<lambda>a. py_int a = 0) (outp_answers (dev s)) = Some (outp_answers (dev s1))"
      by simp_all
    from poll_past [of "\<lambda>a. py_int a = 0" a pre "mid @ z # rest"] a outp left
    have "z \<in> set (outp_answers (dev s1))" by auto
    with z have "\<exists>x\<in>set (outp_answers (dev s1)). \<not> py_int x \<noteq> 0" by auto
    then obtain r where "poll (\<lambda>a. py_int a \<noteq> 0) (outp_answers (dev s1)) = Some r"
      using poll_Some_iff [of "\<lambda>a. py_int a \<noteq> 0" "outp_answers (dev s1)"] by blast
    with locked on show ?thesis
      by (simp add: run off_eq)
  qed
  from keeps cw ends returns show ?thesis by blast
qed

text \<open>
  The theorem on an idle module whose instrument is in CW mode and answers
  \<open>:OUTP:STAT?\<close> with 0, 1, 1, 0.
\<close>

theorem off_cw_on_off_witness:
  "module_state (activated (instrument [''CW\<newline>''] [] [0, 1, 1, 0])) = Idle
   \<and> fst (seq off (seq cw_on off) (activated (instrument [''CW\<newline>''] [] [0, 1, 1, 0]))) =
       Returns ()
   \<and> module_state
       (snd (seq off (seq cw_on off) (activated (instrument [''CW\<newline>''] [] [0, 1, 1, 0])))) =
       Idle
   \<and> cw_frequency
       (snd (seq off (seq cw_on off) (activated (instrument [''CW\<newline>''] [] [0, 1, 1, 0])))) =
       2870000000
   \<and> cw_power
       (snd (seq off (seq cw_on off) (activated (instrument [''CW\<newline>''] [] [0, 1, 1, 0])))) =
       -145"
proof -
  let ?s = "activated (instrument [''CW\<newline>''] [] [0, 1, 1, 0])"
  have idle: "module_state ?s = Idle" by (simp add: activated_def)
  have given: "mode_answers (dev ?s) = ''CW\<newline>'' # [] \<and> is_cw ''CW\<newline>''
      \<and> outp_answers (dev ?s) = [0] @ 1 # [1] @ 0 # [] \<and> py_int 1 \<noteq> 0 \<and> py_int 0 = 0"
    by (simp add: activated_def instrument_def is_cw_CW py_int_def)
  from off_cw_on_off [OF idle, of "''CW\<newline>''" "[]" "[0]" 1 "[1]" 0 "[]"] given
  have "fst (seq off (seq cw_on off) ?s) = Returns ()
      \<and> module_state (snd (seq off (seq cw_on off) ?s)) = Idle
      \<and> cw_frequency (snd (seq off (seq cw_on off) ?s)) = cw_frequency ?s
      \<and> cw_power (snd (seq off (seq cw_on off) ?s)) = cw_power ?s"
    by blast
  with idle show ?thesis by (simp add: activated_def)
qed

subsection \<open>C10: activation stops before the constraints are built\<close>

text \<open>
  C10. The claim: at activation the constraints get the power limits -145 dBm and 30 dBm
  (or \<open>max(-145, max_power)\<close> when \<open>max_power\<close> is configured). The expression of lines 84
  to 89 is as the claim says (lemma \<open>on_activate_power_limits_given_model\<close>), but the
  object as this file defines it does not get there: line 79 reads \<open>self.model\<close>, and only
  \<open>self._model\<close> is ever assigned. Without an attribute \<open>model\<close>, \<open>on_activate\<close> returns
  for no instrument and no configuration; when the instrument answers \<open>*IDN?\<close> with at
  least two fields and reports operation complete twice, the call raises AttributeError
  after \<open>*CLS\<close> and \<open>*RST\<close> have been sent, and no constraints are built.
\<close>

theorem activation_stops_at_model_attribute:
  "(\<forall>s d'. on_activate max_power None d \<noteq> (Returns s, d'))
   \<and> (idn_answers d = idn # rest \<and> 2 \<le> length (split_comma idn) \<and> 2 \<le> opc_confirmations d \<longrightarrow>
         fst (on_activate max_power None d) = Raises AttributeError
       \<and> written (snd (on_activate max_power None d)) = written d @ [CLS, WAI, RST, WAI])"
proof -
  have never: "\<forall>s d'. on_activate max_power None d \<noteq> (Returns s, d')"
    by (auto simp add: on_activate_def call_defs query_idn_def command_wait_eq
        split: list.splits option.splits if_splits)
  have raises: "fst (on_activate max_power None d) = Raises AttributeError
       \<and> written (snd (on_activate max_power None d)) = written d @ [CLS, WAI, RST, WAI]"
    if idn: "idn_answers d = idn # rest" and fields: "2 \<le> length (split_comma idn)"
      and opc: "2 \<le> opc_confirmations d"
  proof -
    from opc obtain r1 where p1: "poll (\<lambda>a. py_int a \<noteq> 1) (opc_answers d) = Some r1"
      and c1: "1 \<le> length (filter (\<lambda>a. py_int a = 1) r1)"
      using poll_opc_step [of 1 "opc_answers d"] by (auto simp add: opc_confirmations_def)
    from c1 obtain r2 where p2: "poll (\<lambda>a. py_int a \<noteq> 1) r1 = Some r2"
      using poll_opc_step [of 0 r1] by auto
    from idn fields p1 p2 show ?thesis
      by (simp add: on_activate_def call_defs query_idn_def command_wait_eq)
  qed
  from never raises show ?thesis by blast
qed

text \<open>
  An unconfigured \<open>max_power\<close> and an instrument that identifies itself as an SMBV100A and
  reports operation complete for \<open>*CLS\<close> and \<open>*RST\<close>.
\<close>

theorem activation_stops_at_model_attribute_witness:
  "idn_answers ((instrument [] [1, 1] [])
       \<lparr>idn_answers := [''Rohde-Schwarz,SMBV100A,257001,3.1.19'']\<rparr>) =
     ''Rohde-Schwarz,SMBV100A,257001,3.1.19'' # []
   \<and> 2 \<le> length (split_comma ''Rohde-Schwarz,SMBV100A,257001,3.1.19'')
   \<and> 2 \<le> opc_confirmations ((instrument [] [1, 1] [])
       \<lparr>idn_answers := [''Rohde-Schwarz,SMBV100A,257001,3.1.19'']\<rparr>)
   \<and> fst (on_activate None None ((instrument [] [1, 1] [])
       \<lparr>idn_answers := [''Rohde-Schwarz,SMBV100A,257001,3.1.19'']\<rparr>)) = Raises AttributeError
   \<and> written (snd (on_activate None None ((instrument [] [1, 1] [])
       \<lparr>idn_answers := [''Rohde-Schwarz,SMBV100A,257001,3.1.19'']\<rparr>))) = [CLS, WAI, RST, WAI]"
proof -
  let ?d = "(instrument [] [1, 1] [])
       \<lparr>idn_answers := [''Rohde-Schwarz,SMBV100A,257001,3.1.19'']\<rparr>"
  have given: "idn_answers ?d = ''Rohde-Schwarz,SMBV100A,257001,3.1.19'' # []
      \<and> 2 \<le> length (split_comma ''Rohde-Schwarz,SMBV100A,257001,3.1.19'')
      \<and> 2 \<le> opc_confirmations ?d"
    by (simp add: instrument_def opc_confirmations_def py_int_def)
  from activation_stops_at_model_attribute
         [of None ?d "''Rohde-Schwarz,SMBV100A,257001,3.1.19''" "[]"] given
  have "fst (on_activate None None ?d) = Raises AttributeError
      \<and> written (snd (on_activate None None ?d)) = written ?d @ [CLS, WAI, RST, WAI]"
    by blast
  with given show ?thesis by (simp add: instrument_def)
qed

end
